theory Spec2Isabelle
  imports Main "HOL-Library.Sublist"
begin

section \<open>Values, payloads and imported constants\<close>

text \<open>
  The gateway of \<^verbatim>\<open>custom_components/terncy/core/gateway.py\<close> receives JSON payloads
  from the hub. The source reads some keys by subscript (\<^verbatim>\<open>item["id"]\<close>) and others with
  \<^verbatim>\<open>.get\<close> or an \<^verbatim>\<open>in\<close> test. A key read by subscript is a required key of the payload's
  declared type (\<^verbatim>\<open>SvcData\<close>, \<^verbatim>\<open>SceneData\<close>, ...) and is a plain record field here; a key
  read with \<^verbatim>\<open>.get\<close> or tested with \<^verbatim>\<open>in\<close> is optional and is an \<open>option\<close> field, with
  \<open>None\<close> for the absent key.
\<close>

datatype pyval = PNone | PBool bool | PInt int | PStr string

text \<open>\<^verbatim>\<open>AttrValue\<close>: the dict \<^verbatim>\<open>{"attr": a, "value": v}\<close>.\<close>

type_synonym attr_value = "string \<times> pyval"

datatype error = IndexError | LookupError | AttributeError | TypeError | TransportError

text \<open>\<^verbatim>\<open>TerncyEntityDescription\<close>, as far as the gateway reads it.\<close>

record description =
  key :: string
  desc_name :: string
  required_attrs :: "string list"

text \<open>
  The module constants imported from \<^verbatim>\<open>..const\<close> and \<^verbatim>\<open>..profiles\<close>. Their values are not
  part of the gateway, so every function that reads one takes this record as a parameter.
  A table read by subscript or \<^verbatim>\<open>.get\<close> is a partial map.
\<close>

record constants =
  ACTION_LONG_PRESS :: string
  ACTION_PRESSED :: string
  ACTION_ROTATION :: string
  ACTION_SINGLE_PRESS :: string
  DOMAIN :: string
  TERNCY_MANU_NAME :: string
  EVENT_ENTITY_BUTTON_EVENTS :: "int \<Rightarrow> string option"
  DEFAULT_ROOMS :: "string \<Rightarrow> (string \<Rightarrow> string option) option"
  PROFILES :: "int \<Rightarrow> description list option"

record svc_data =
  svc_id :: string
  svc_name :: string
  svc_profile :: "int option"
  svc_attributes :: "attr_value list option"
  svc_room :: "string option"

text \<open>
  \<^verbatim>\<open>PhysicalDeviceData\<close>. The gateway passes \<^verbatim>\<open>version\<close> and \<^verbatim>\<open>hwVersion\<close> on as
  \<^verbatim>\<open>str(...)\<close> of the value; the fields hold that string.
\<close>

record physical_device_data =
  dd_id :: string
  dd_type :: string
  dd_model :: "string option"
  dd_name :: "string option"
  dd_version :: "string option"
  dd_hwVersion :: "string option"
  dd_online :: "bool option"
  dd_room :: "string option"
  dd_services :: "svc_data list option"

record device_group_data =
  gd_id :: string
  gd_name :: string
  gd_model :: "string option"
  gd_version :: "string option"
  gd_hwVersion :: "string option"
  gd_online :: "bool option"
  gd_room :: "string option"
  gd_profile :: "int option"
  gd_attributes :: "attr_value list option"

record scene_data =
  sc_id :: string
  sc_name :: "string option"
  sc_actions :: "pyval list option"
  sc_online :: "bool option"
  sc_on :: pyval

record room =
  room_id :: string
  room_name :: string

record report_item =
  rep_id :: "string option"
  rep_attributes :: "attr_value list option"

record key_attr =
  times :: int

record key_pressed_item =
  kp_id :: string
  kp_attributes :: "key_attr list option"

record simple_item =
  item_id :: string

text \<open>
  An item of an \<^verbatim>\<open>entityCreated\<close> or \<^verbatim>\<open>entityUpdated\<close> message is tagged by its \<^verbatim>\<open>"type"\<close>
  key: \<^verbatim>\<open>"scene"\<close>, \<^verbatim>\<open>"devicegroup"\<close>, or another string (carried by \<open>OtherItem\<close>).
\<close>

datatype entity_item =
    SceneItem scene_data
  | DeviceGroupItem device_group_data
  | OtherItem string

text \<open>
  The list under the \<^verbatim>\<open>"entities"\<close> key, typed as the handler of the message's type
  declares its parameter.
\<close>

datatype msg_data =
    ReportMsgData "report_item list"
  | KeyPressedMsgData "key_pressed_item list"
  | SimpleMsgData "simple_item list"
  | EntityAvailableMsgData "physical_device_data list"
  | EntityCreatedMsgData "entity_item list"
  | EntityUpdatedMsgData "entity_item list"

record msg =
  msg_type :: "string option"
  msg_entities :: "msg_data option"

datatype event = EventMessage msg | Connected | Disconnected | UnknownEvent


section \<open>Local objects\<close>

text \<open>
  Python dicts keep insertion order and the gateway iterates over them, so a dict is an
  association list with distinct keys: \<open>map_of\<close> is \<^verbatim>\<open>.get\<close>, \<open>dict_set\<close> is item
  assignment and \<open>dict_pop\<close> is \<^verbatim>\<open>.pop\<close> of a key. A method call that changes the object
  stored under a key is \<open>mutate\<close>: the dict keeps its keys and their order.
\<close>

fun dict_set :: "'k \<Rightarrow> 'v \<Rightarrow> ('k \<times> 'v) list \<Rightarrow> ('k \<times> 'v) list" where
  "dict_set k v [] = [(k, v)]"
| "dict_set k v ((k', v') # kvs) =
     (if k' = k then (k, v) # kvs else (k', v') # dict_set k v kvs)"

definition dict_pop :: "'k \<Rightarrow> ('k \<times> 'v) list \<Rightarrow> ('k \<times> 'v) list" where
  "dict_pop k kvs = filter (\<lambda>kv. fst kv \<noteq> k) kvs"

definition mutate :: "'k \<Rightarrow> ('v \<Rightarrow> 'v) \<Rightarrow> ('k \<times> 'v) list \<Rightarrow> ('k \<times> 'v) list" where
  "mutate k f kvs = map (\<lambda>kv. if fst kv = k then (fst kv, f (snd kv)) else kv) kvs"

text \<open>
  Modelled from the spec: the presentation object \<^verbatim>\<open>TerncyEntity\<close> of \<^verbatim>\<open>..hass.entity\<close> and
  its constructor \<^verbatim>\<open>create_entity\<close> of \<^verbatim>\<open>..hass.add_entities\<close> are not in the source tree.
  The spec (4.3a, 4.4) gives a presentation object a display name, an availability flag
  written by \<^verbatim>\<open>set_available\<close>, and attribute state into which \<^verbatim>\<open>update_state\<close> merges a
  list of attribute/value pairs, a later pair for an attribute replacing an earlier one.
\<close>

record terncy_entity =
  ent_eid :: string
  ent_key :: string
  attr_name :: string
  ent_available :: bool
  ent_state :: "string \<Rightarrow> pyval option"

definition merge_attrs :: "(string \<Rightarrow> pyval option) \<Rightarrow> attr_value list \<Rightarrow> string \<Rightarrow> pyval option" where
  "merge_attrs st attributes = foldl (\<lambda>s av. s(fst av \<mapsto> snd av)) st attributes"

definition create_entity :: "string \<Rightarrow> description \<Rightarrow> attr_value list \<Rightarrow> terncy_entity" where
  "create_entity e d init_states =
     \<lparr>ent_eid = e, ent_key = key d, attr_name = desc_name d,
      ent_available = False, ent_state = merge_attrs Map.empty init_states\<rparr>"

definition ent_set_available :: "bool \<Rightarrow> terncy_entity \<Rightarrow> terncy_entity" where
  "ent_set_available b en = en\<lparr>ent_available := b\<rparr>"

definition ent_update_state :: "attr_value list \<Rightarrow> terncy_entity \<Rightarrow> terncy_entity" where
  "ent_update_state attributes en = en\<lparr>ent_state := merge_attrs (ent_state en) attributes\<rparr>"

text \<open>
  Modelled from the spec: the class \<^verbatim>\<open>TerncyDevice\<close> of \<^verbatim>\<open>.device\<close> is not in the source
  tree. The gateway constructs it from \<^verbatim>\<open>(did, eid, profile)\<close> and appends to its
  \<^verbatim>\<open>entities\<close>. The spec (3, 4.3a) gives it an availability flag, whose setting is an
  idempotent flag write, and attribute state: an update merges the pairs into the current
  state and propagates to every attached presentation object.
\<close>

record terncy_device =
  did :: string
  eid :: string
  profile :: "int option"
  entities :: "terncy_entity list"
  available :: bool
  dev_state :: "string \<Rightarrow> pyval option"

definition TerncyDevice :: "string \<Rightarrow> string \<Rightarrow> int option \<Rightarrow> terncy_device" where
  "TerncyDevice d e p =
     \<lparr>did = d, eid = e, profile = p, entities = [], available = False, dev_state = Map.empty\<rparr>"

definition set_available :: "bool \<Rightarrow> terncy_device \<Rightarrow> terncy_device" where
  "set_available b dev = dev\<lparr>available := b\<rparr>"

definition update_state :: "attr_value list \<Rightarrow> terncy_device \<Rightarrow> terncy_device" where
  "update_state attributes dev =
     dev\<lparr>dev_state := merge_attrs (dev_state dev) attributes,
         entities := map (ent_update_state attributes) (entities dev)\<rparr>"


section \<open>Collaborators and the gateway state\<close>

text \<open>
  Every call the gateway makes on a collaborator (the session client \<^verbatim>\<open>self.api\<close>, the
  host's registries, bus and task scheduler, the logger, a listener callback, a device's
  trigger) is recorded, in order, in a trace. A log record keeps its level and its
  format string.
\<close>

datatype log_level = Debug | Info | Warning

datatype task = TaskApiStart | TaskReconnect | TaskRefresh

datatype connection = CONNECTION_NETWORK_MAC string | CONNECTION_ZIGBEE string

record registry_call =
  rc_connections :: "connection list"
  rc_identifier :: string
  rc_model :: "string option"
  rc_name :: string
  rc_sw_version :: "string option"
  rc_hw_version :: "string option"
  rc_suggested_area :: "string option"
  rc_via_device :: "string option"

datatype effect =
    Log log_level string
  | CreateTask task
  | ApiStart
  | ApiStop
  | ApiGetEntities string
  | ApiSetAttribute string string pyval int
  | ApiSetAttributes string "attr_value list" int
  | ListenerCall nat "attr_value list"
  | TriggerEvent string string "int option"
  | BusFire string nat string "int option"
  | GetOrCreateDevice registry_call
  | RemoveDevice nat
  | RemoveEntity string
  | AddEntity string string

text \<open>
  The gateway object. \<open>is_connected\<close> is \<^verbatim>\<open>self.api.is_connected()\<close> and \<open>unique_id\<close> is
  \<^verbatim>\<open>self.api.dev_id\<close>. A listener callback is named by a number; \<open>listeners\<close> maps an eid
  to its set of callbacks, listed in the order the set iterates.

  An object popped from \<^verbatim>\<open>parsed_devices\<close> or \<^verbatim>\<open>scenes\<close> is not gone: the handler still holds
  it and the host holds the presentation objects that were handed to it. \<open>detached_devices\<close>
  and \<open>detached_scenes\<close> keep these objects, in the order they were popped and in the state
  the gateway left them in.

  Modelled from the spec: the host's device registry is not in the source tree. By the
  spec (6) it finds a device entry by identifier, gets or creates one, and removes one by
  entry id; here it maps the second component of an identifier \<^verbatim>\<open>(DOMAIN, x)\<close> to the id of
  its entry, and \<open>next_entry_id\<close> is the id the next created entry gets.
\<close>

record gateway =
  stopped :: bool
  parsed_devices :: "(string \<times> terncy_device) list"
  listeners :: "(string \<times> nat list) list"
  room_data :: "(string \<times> string) list"
  scenes :: "(string \<times> terncy_entity) list"
  detached_devices :: "terncy_device list"
  detached_scenes :: "terncy_entity list"
  gw_name :: string
  mac :: string
  export_device_groups :: bool
  export_scenes :: bool
  unique_id :: string
  is_connected :: bool
  device_registry :: "(string \<times> nat) list"
  next_entry_id :: nat
  trace :: "effect list"

definition emit :: "effect list \<Rightarrow> gateway \<Rightarrow> gateway" where
  "emit es g = g\<lparr>trace := trace g @ es\<rparr>"

definition async_get_device :: "gateway \<Rightarrow> string \<Rightarrow> nat option" where
  "async_get_device g x = map_of (device_registry g) x"

definition async_remove_device :: "nat \<Rightarrow> gateway \<Rightarrow> gateway" where
  "async_remove_device i g =
     emit [RemoveDevice i] (g\<lparr>device_registry := filter (\<lambda>e. snd e \<noteq> i) (device_registry g)\<rparr>)"

definition async_get_or_create :: "registry_call \<Rightarrow> gateway \<Rightarrow> gateway" where
  "async_get_or_create rc g =
     emit [GetOrCreateDevice rc]
       (case map_of (device_registry g) (rc_identifier rc) of
          Some i \<Rightarrow> g
        | None \<Rightarrow> g\<lparr>device_registry := device_registry g @ [(rc_identifier rc, next_entry_id g)],
                    next_entry_id := Suc (next_entry_id g)\<rparr>)"


section \<open>Listener registry and commands\<close>

text \<open>
  \<^verbatim>\<open>add_listener\<close> adds the callback to the set of the eid. Where a new element comes in the
  iteration order of a Python set is decided by its hash, not by the time it was added, so
  that place is a parameter.
\<close>

definition add_listener :: "nat \<Rightarrow> string \<Rightarrow> nat \<Rightarrow> gateway \<Rightarrow> gateway" where
  "add_listener place e listener g =
     (let ls = (case map_of (listeners g) e of None \<Rightarrow> [] | Some ls \<Rightarrow> ls) in
      g\<lparr>listeners :=
          dict_set e (if listener \<in> set ls then ls else take place ls @ listener # drop place ls)
            (listeners g)\<rparr>)"

definition remove_listener :: "string \<Rightarrow> nat \<Rightarrow> gateway \<Rightarrow> gateway" where
  "remove_listener e listener g =
     (case map_of (listeners g) e of
        None \<Rightarrow> g
      | Some ls \<Rightarrow> g\<lparr>listeners := dict_set e (filter (\<lambda>l. l \<noteq> listener) ls) (listeners g)\<rparr>)"

text \<open>
  \<^verbatim>\<open>update_listeners\<close>: every callback registered for the eid is called with the data; an
  eid without an entry is a no-op.
\<close>

definition update_listeners :: "string \<Rightarrow> attr_value list \<Rightarrow> gateway \<Rightarrow> gateway" where
  "update_listeners e data g =
     (case map_of (listeners g) e of
        None \<Rightarrow> g
      | Some ls \<Rightarrow> emit (map (\<lambda>l. ListenerCall l data) ls) g)"

text \<open>
  \<^verbatim>\<open>set_attribute\<close> and \<^verbatim>\<open>set_attributes\<close> await the session client's write first. Whether
  the write raises is decided by the transport, so its outcome is a parameter: \<open>Some e\<close>
  is the exception it raises. The result pairs the exception that leaves the call, if any,
  with the gateway as the call leaves it.
\<close>

definition set_attribute ::
  "error option \<Rightarrow> string \<Rightarrow> string \<Rightarrow> pyval \<Rightarrow> int \<Rightarrow> gateway \<Rightarrow> error option \<times> gateway" where
  "set_attribute outcome e a v method g =
     (let g1 = emit [ApiSetAttribute e a v method] g in
      case outcome of
        Some err \<Rightarrow> (Some err, g1)
      | None \<Rightarrow> (None, update_listeners e [(a, v)] g1))"

definition set_attributes ::
  "error option \<Rightarrow> string \<Rightarrow> attr_value list \<Rightarrow> int \<Rightarrow> gateway \<Rightarrow> error option \<times> gateway" where
  "set_attributes outcome e attrs method g =
     (let g1 = emit [ApiSetAttributes e attrs method] g in
      case outcome of
        Some err \<Rightarrow> (Some err, g1)
      | None \<Rightarrow> (None, update_listeners e attrs g1))"


section \<open>Event handlers\<close>

text \<open>
  A \<^verbatim>\<open>for\<close> loop whose body can raise: the first exception ends the loop and leaves the
  handler, with the gateway as the items before it left it.
\<close>

fun for_each ::
  "('a \<Rightarrow> gateway \<Rightarrow> error option \<times> gateway) \<Rightarrow> 'a list \<Rightarrow> gateway \<Rightarrow> error option \<times> gateway" where
  "for_each body [] g = (None, g)"
| "for_each body (x # xs) g =
     (case body x g of
        (Some e, g') \<Rightarrow> (Some e, g')
      | (None, g') \<Rightarrow> for_each body xs g')"

definition report_item_step :: "report_item \<Rightarrow> gateway \<Rightarrow> gateway" where
  "report_item_step id_attributes g =
     (let attributes = (case rep_attributes id_attributes of None \<Rightarrow> [] | Some a \<Rightarrow> a) in
      case rep_id id_attributes of
        None \<Rightarrow> g
      | Some e \<Rightarrow> update_listeners e attributes g)"

definition on_report :: "report_item list \<Rightarrow> gateway \<Rightarrow> gateway" where
  "on_report msg_data g =
     foldl (\<lambda>g' it. report_item_step it g') (emit [Log Debug ''EVENT: report: %s''] g) msg_data"

text \<open>
  Modelled from the spec: \<^verbatim>\<open>TerncyDevice.trigger_event\<close> is not in the source tree; by the
  spec (4.2) it raises a local device-level trigger, recorded here with the device's eid,
  the event label and the press count passed with it.
\<close>

definition trigger_event :: "terncy_device \<Rightarrow> string \<Rightarrow> int option \<Rightarrow> gateway \<Rightarrow> gateway" where
  "trigger_event dev event_type click_times g = emit [TriggerEvent (eid dev) event_type click_times] g"

text \<open>
  The body of the loop of \<^verbatim>\<open>_on_key_pressed\<close>. A payload without \<^verbatim>\<open>"attributes"\<close> is
  skipped (\<^verbatim>\<open>continue\<close>); \<^verbatim>\<open>entity_data["attributes"][0]\<close> raises on an empty list; the
  table \<^verbatim>\<open>EVENT_ENTITY_BUTTON_EVENTS\<close> is subscripted only in the first branch.
\<close>

definition key_pressed_step :: "constants \<Rightarrow> key_pressed_item \<Rightarrow> gateway \<Rightarrow> error option \<times> gateway" where
  "key_pressed_step c entity_data g =
     (case kp_attributes entity_data of
        None \<Rightarrow> (None, g)
      | Some [] \<Rightarrow> (Some IndexError, g)
      | Some (a # _) \<Rightarrow>
          (let e = kp_id entity_data;
               t = times a
           in case (if 1 \<le> t \<and> t \<le> 9 then EVENT_ENTITY_BUTTON_EVENTS c t
                    else Some (ACTION_SINGLE_PRESS c)) of
                None \<Rightarrow> (Some LookupError, g)
              | Some event_type \<Rightarrow>
                  (let g1 = (case map_of (parsed_devices g) e of
                               Some device \<Rightarrow> trigger_event device event_type (Some t) g
                             | None \<Rightarrow> g);
                       g2 = (case async_get_device g1 e of
                               Some device_entry \<Rightarrow>
                                 emit [BusFire (DOMAIN c @ ''_'' @ ACTION_PRESSED c) device_entry e (Some t)] g1
                             | None \<Rightarrow> g1)
                   in (None, g2))))"

definition on_key_pressed :: "constants \<Rightarrow> key_pressed_item list \<Rightarrow> gateway \<Rightarrow> error option \<times> gateway" where
  "on_key_pressed c msg_data g =
     for_each (key_pressed_step c) msg_data (emit [Log Debug ''EVENT: keyPressed: %s''] g)"

definition simple_trigger_step :: "constants \<Rightarrow> string \<Rightarrow> simple_item \<Rightarrow> gateway \<Rightarrow> gateway" where
  "simple_trigger_step c action it g =
     (let e = item_id it;
          g1 = (case map_of (parsed_devices g) e of
                  Some device \<Rightarrow> trigger_event device action None g
                | None \<Rightarrow> g)
      in case async_get_device g1 e of
           Some device_entry \<Rightarrow> emit [BusFire (DOMAIN c @ ''_'' @ action) device_entry e None] g1
         | None \<Rightarrow> g1)"

definition on_key_long_pressed :: "constants \<Rightarrow> simple_item list \<Rightarrow> gateway \<Rightarrow> gateway" where
  "on_key_long_pressed c msg_data g =
     foldl (\<lambda>g' it. simple_trigger_step c (ACTION_LONG_PRESS c) it g')
       (emit [Log Debug ''EVENT: keyLongPressed: %s''] g) msg_data"

definition on_rotation :: "constants \<Rightarrow> simple_item list \<Rightarrow> gateway \<Rightarrow> gateway" where
  "on_rotation c msg_data g =
     foldl (\<lambda>g' it. simple_trigger_step c (ACTION_ROTATION c) it g')
       (emit [Log Debug ''EVENT: rotation: %s''] g) msg_data"


section \<open>Device setup\<close>

definition add_device :: "string \<Rightarrow> terncy_device \<Rightarrow> gateway \<Rightarrow> gateway" where
  "add_device e device g = g\<lparr>parsed_devices := dict_set e device (parsed_devices g)\<rparr>"

text \<open>A method call on the device object that \<^verbatim>\<open>parsed_devices\<close> holds under an eid.\<close>

definition mutate_device :: "string \<Rightarrow> (terncy_device \<Rightarrow> terncy_device) \<Rightarrow> gateway \<Rightarrow> gateway" where
  "mutate_device e f g = g\<lparr>parsed_devices := mutate e f (parsed_devices g)\<rparr>"

text \<open>
  \<^verbatim>\<open>self.room_data.get(r)\<close> under the two truth tests of the source: an absent or empty room
  id, and an absent or empty room name, give nothing.
\<close>

definition room_name_of :: "gateway \<Rightarrow> string option \<Rightarrow> string option" where
  "room_name_of g r =
     (case r of
        None \<Rightarrow> None
      | Some rid \<Rightarrow>
          (if rid = [] then None
           else case map_of (room_data g) rid of
                  None \<Rightarrow> None
                | Some n \<Rightarrow> if n = [] then None else Some n))"

definition svc_display_name :: "physical_device_data \<Rightarrow> svc_data \<Rightarrow> string" where
  "svc_display_name device_data svc =
     (let e = svc_id svc in
      if svc_name svc = [] then
        (case dd_name device_data of
           None \<Rightarrow> e
         | Some device_name \<Rightarrow>
             if device_name = [] then e else device_name @ ''-'' @ drop (length e - 2) e)
      else svc_name svc)"

text \<open>
  The body of the loop over \<^verbatim>\<open>descriptions\<close>: the entity is created, handed to the host
  (\<^verbatim>\<open>ha_add_entity\<close>) and appended to the device's \<^verbatim>\<open>entities\<close>.
\<close>

definition add_entity :: "string \<Rightarrow> description \<Rightarrow> attr_value list \<Rightarrow> gateway \<Rightarrow> gateway" where
  "add_entity e d attributes g =
     (let entity = create_entity e d attributes in
      mutate_device e (\<lambda>dev. dev\<lparr>entities := entities dev @ [entity]\<rparr>)
        (emit [AddEntity e (key d)] g))"

text \<open>
  The body of the loop over \<^verbatim>\<open>svc_list\<close>. The variable \<^verbatim>\<open>suggested_area\<close> is assigned inside
  the loop and keeps its value for the services after it, so the loop threads it together
  with the gateway. \<open>None\<close> is \<^verbatim>\<open>UNDEFINED\<close>. A device that is not stored in
  \<^verbatim>\<open>parsed_devices\<close> is a local object: the state update on it is lost with it.
\<close>

definition setup_svc ::
  "constants \<Rightarrow> physical_device_data \<Rightarrow> svc_data \<Rightarrow> string option \<times> gateway \<Rightarrow> string option \<times> gateway" where
  "setup_svc c device_data svc ag =
     (let suggested_area = fst ag;
          g = snd ag;
          online = (case dd_online device_data of None \<Rightarrow> True | Some b \<Rightarrow> b);
          e = svc_id svc;
          name = svc_display_name device_data svc;
          attributes = (case svc_attributes svc of None \<Rightarrow> [] | Some a \<Rightarrow> a)
      in case map_of (parsed_devices g) e of
           Some device \<Rightarrow>
             (suggested_area,
              mutate_device e (update_state attributes) (mutate_device e (set_available online) g))
         | None \<Rightarrow>
             (let prof = svc_profile svc;
                  device = TerncyDevice (dd_id device_data) e prof
              in case (case prof of None \<Rightarrow> None | Some p \<Rightarrow> PROFILES c p) of
                   None \<Rightarrow>
                     (suggested_area, emit [Log Debug ''[%s] Unsupported profile:%d %s''] g)
                 | Some candidates \<Rightarrow>
                     (let area = (case room_name_of g (svc_room svc) of
                                    None \<Rightarrow> suggested_area
                                  | Some svc_room_name \<Rightarrow> Some svc_room_name);
                          attrs = map fst attributes;
                          descriptions =
                            filter (\<lambda>d. required_attrs d = [] \<or> set (required_attrs d) \<subseteq> set attrs)
                              candidates
                      in if length descriptions > 0 then
                           (let g1 = async_get_or_create
                                       \<lparr>rc_connections = [CONNECTION_ZIGBEE e],
                                        rc_identifier = e,
                                        rc_model = dd_model device_data,
                                        rc_name = name,
                                        rc_sw_version = dd_version device_data,
                                        rc_hw_version = dd_hwVersion device_data,
                                        rc_suggested_area = area,
                                        rc_via_device = Some (unique_id g)\<rparr> g;
                                g2 = add_device e device g1;
                                g3 = foldl (\<lambda>g' d. add_entity e d attributes g') g2 descriptions
                            in (area,
                                mutate_device e (update_state attributes)
                                  (mutate_device e (set_available online) g3)))
                         else (area, g))))"

definition setup_device :: "constants \<Rightarrow> physical_device_data \<Rightarrow> svc_data list \<Rightarrow> gateway \<Rightarrow> gateway" where
  "setup_device c device_data svc_list g =
     (let g0 = emit [Log Debug ''setup %s: %s''] g;
          suggested_area = room_name_of g0 (dd_room device_data);
          g1 = (if dd_id device_data = unique_id g0 then
                  async_get_or_create
                    \<lparr>rc_connections = [CONNECTION_NETWORK_MAC (mac g0)],
                     rc_identifier = unique_id g0,
                     rc_model = dd_model device_data,
                     rc_name = gw_name g0,
                     rc_sw_version = dd_version device_data,
                     rc_hw_version = dd_hwVersion device_data,
                     rc_suggested_area = suggested_area,
                     rc_via_device = None\<rparr> g0
                else g0)
      in snd (foldl (\<lambda>ag svc. setup_svc c device_data svc ag) (suggested_area, g1) svc_list))"

text \<open>
  \<^verbatim>\<open>setup_device_group\<close> passes the group's dict both as the device data and as the only
  service: each role reads its own keys of it.
\<close>

definition group_as_device :: "device_group_data \<Rightarrow> physical_device_data" where
  "group_as_device gd =
     \<lparr>dd_id = gd_id gd, dd_type = ''devicegroup'', dd_model = gd_model gd,
      dd_name = Some (gd_name gd), dd_version = gd_version gd, dd_hwVersion = gd_hwVersion gd,
      dd_online = gd_online gd, dd_room = gd_room gd, dd_services = None\<rparr>"

definition group_as_svc :: "device_group_data \<Rightarrow> svc_data" where
  "group_as_svc gd =
     \<lparr>svc_id = gd_id gd, svc_name = gd_name gd, svc_profile = gd_profile gd,
      svc_attributes = gd_attributes gd, svc_room = gd_room gd\<rparr>"

definition setup_device_group :: "constants \<Rightarrow> device_group_data \<Rightarrow> gateway \<Rightarrow> gateway" where
  "setup_device_group c device_group_data g =
     setup_device c (group_as_device device_group_data) [group_as_svc device_group_data] g"

definition entity_available_step :: "constants \<Rightarrow> physical_device_data \<Rightarrow> gateway \<Rightarrow> gateway" where
  "entity_available_step c device_data g =
     (if dd_type device_data = ''device'' then
        setup_device c device_data
          (case dd_services device_data of None \<Rightarrow> [] | Some svc_list \<Rightarrow> svc_list) g
      else if dd_type device_data = ''token'' then g
      else emit [Log Warning ''entityAvailable: **UNSUPPORTED TYPE**: %s''] g)"

definition on_entity_available :: "constants \<Rightarrow> physical_device_data list \<Rightarrow> gateway \<Rightarrow> gateway" where
  "on_entity_available c msg_data g =
     foldl (\<lambda>g' device_data. entity_available_step c device_data g')
       (emit [Log Debug ''EVENT: entityAvailable: %s''] g) msg_data"


section \<open>Deletion, scenes and offline\<close>

definition mutate_scene :: "string \<Rightarrow> (terncy_entity \<Rightarrow> terncy_entity) \<Rightarrow> gateway \<Rightarrow> gateway" where
  "mutate_scene sid f g = g\<lparr>scenes := mutate sid f (scenes g)\<rparr>"

text \<open>
  \<^verbatim>\<open>self.parsed_devices.pop(eid)\<close> and \<^verbatim>\<open>self.scenes.pop(did)\<close>: the key leaves the dict and
  the object it held lives on, detached, as it is at that moment.
\<close>

definition pop_device :: "string \<Rightarrow> gateway \<Rightarrow> gateway" where
  "pop_device e g =
     g\<lparr>parsed_devices := dict_pop e (parsed_devices g),
       detached_devices := detached_devices g
         @ (case map_of (parsed_devices g) e of Some device \<Rightarrow> [device] | None \<Rightarrow> [])\<rparr>"

definition pop_scene :: "string \<Rightarrow> gateway \<Rightarrow> gateway" where
  "pop_scene sid g =
     g\<lparr>scenes := dict_pop sid (scenes g),
       detached_scenes := detached_scenes g
         @ (case map_of (scenes g) sid of Some scene \<Rightarrow> [scene] | None \<Rightarrow> [])\<rparr>"

text \<open>
  The body of the loop over \<^verbatim>\<open>will_delete\<close>: the device is marked unavailable, its host
  device entry is removed if the registry has one, and the key is popped. The key comes
  from \<^verbatim>\<open>will_delete\<close>, so the dict has it.
\<close>

definition delete_device_step :: "string \<Rightarrow> gateway \<Rightarrow> gateway" where
  "delete_device_step e g =
     (let g1 = mutate_device e (set_available False) g;
          g2 = (case async_get_device g1 e of
                  Some device_entry \<Rightarrow>
                    emit [Log Debug ''removed device_entry: %s %s''] (async_remove_device device_entry g1)
                | None \<Rightarrow> g1)
      in pop_device e g2)"

text \<open>
  The body of the loop of \<^verbatim>\<open>_on_entity_deleted\<close>. The host names a presentation object by
  an \<^verbatim>\<open>entity_id\<close> that the host assigns; the removal call is recorded with the object's
  eid.
\<close>

definition entity_deleted_step :: "simple_item \<Rightarrow> gateway \<Rightarrow> gateway" where
  "entity_deleted_step it g =
     (let d = item_id it in
      if prefix ''scene-'' d then
        (case map_of (scenes g) d of
           Some scene \<Rightarrow>
             (let g1 = mutate_scene d (ent_set_available False) g;
                  g2 = pop_scene d g1
              in emit [RemoveEntity (ent_eid scene)] g2)
         | None \<Rightarrow> g)
      else
        (let will_delete = filter (\<lambda>kv. d = did (snd kv)) (parsed_devices g) in
         foldl (\<lambda>g' kv. delete_device_step (fst kv) g') g will_delete))"

definition on_entity_deleted :: "simple_item list \<Rightarrow> gateway \<Rightarrow> gateway" where
  "on_entity_deleted msg_data g =
     foldl (\<lambda>g' it. entity_deleted_step it g') (emit [Log Debug ''EVENT: entityDeleted: %s''] g) msg_data"

text \<open>
  \<^verbatim>\<open>setup_scene\<close>. The description built for a new scene is a \<^verbatim>\<open>TerncySwitchDescription\<close>
  with key \<^verbatim>\<open>"scene"\<close> and the scene's name.
\<close>

definition setup_scene :: "scene_data \<Rightarrow> gateway \<Rightarrow> gateway" where
  "setup_scene scene_data g =
     (if \<not> export_scenes g then g
      else
        (let scene_id = sc_id scene_data in
         if length (case sc_actions scene_data of None \<Rightarrow> [] | Some a \<Rightarrow> a) = 0 then
           (case map_of (scenes g) scene_id of
              Some entity \<Rightarrow> mutate_scene scene_id (ent_set_available False) g
            | None \<Rightarrow> g)
         else
           (let g0 = emit [Log Debug ''setup %s %s''] g;
                name = (case sc_name scene_data of
                          None \<Rightarrow> scene_id
                        | Some n \<Rightarrow> if n = [] then scene_id else n);
                online = (case sc_online scene_data of None \<Rightarrow> True | Some b \<Rightarrow> b);
                init_states = [(''on'', sc_on scene_data)];
                g1 = (case map_of (scenes g0) scene_id of
                        None \<Rightarrow>
                          (let description = \<lparr>key = ''scene'', desc_name = name, required_attrs = []\<rparr>;
                               entity = create_entity scene_id description init_states;
                               g' = emit [AddEntity scene_id (key description)] g0
                           in g'\<lparr>scenes := dict_set scene_id entity (scenes g')\<rparr>)
                      | Some entity \<Rightarrow> mutate_scene scene_id (\<lambda>en. en\<lparr>attr_name := name\<rparr>) g0)
            in mutate_scene scene_id (ent_update_state init_states)
                 (mutate_scene scene_id (ent_set_available online) g1))))"

fun entity_updated_step :: "entity_item \<Rightarrow> gateway \<Rightarrow> gateway" where
  "entity_updated_step (SceneItem scene) g = setup_scene scene g"
| "entity_updated_step (DeviceGroupItem gd) g =
     emit [Log Info ''entityUpdated: **UNSUPPORTED TYPE**: %s''] g"
| "entity_updated_step (OtherItem t) g =
     (if t = ''user'' then emit [Log Debug ''type user, ignore.''] g
      else emit [Log Info ''entityUpdated: **UNSUPPORTED TYPE**: %s''] g)"

definition on_entity_updated :: "entity_item list \<Rightarrow> gateway \<Rightarrow> gateway" where
  "on_entity_updated msg_data g =
     foldl (\<lambda>g' it. entity_updated_step it g') (emit [Log Debug ''EVENT: entityUpdated: %s''] g) msg_data"

fun entity_created_step :: "constants \<Rightarrow> entity_item \<Rightarrow> gateway \<Rightarrow> gateway" where
  "entity_created_step c (SceneItem scene) g = setup_scene scene g"
| "entity_created_step c (DeviceGroupItem gd) g = setup_device_group c gd g"
| "entity_created_step c (OtherItem t) g =
     emit [Log Debug ''entityCreated: **UNSUPPORTED TYPE**: %s''] g"

definition on_entity_created :: "constants \<Rightarrow> entity_item list \<Rightarrow> gateway \<Rightarrow> gateway" where
  "on_entity_created c msg_data g =
     foldl (\<lambda>g' it. entity_created_step c it g') (emit [Log Debug ''EVENT: entityCreated: %s''] g) msg_data"

definition mark_unavailable :: "(terncy_device \<Rightarrow> bool) \<Rightarrow> gateway \<Rightarrow> gateway" where
  "mark_unavailable P g =
     g\<lparr>parsed_devices :=
         map (\<lambda>kv. if P (snd kv) then (fst kv, set_available False (snd kv)) else kv) (parsed_devices g)\<rparr>"

definition on_offline :: "simple_item list \<Rightarrow> gateway \<Rightarrow> gateway" where
  "on_offline msg_data g =
     foldl (\<lambda>g' device_data. mark_unavailable (\<lambda>device. item_id device_data = did device) g')
       (emit [Log Debug ''EVENT: offline: %s''] g) msg_data"


section \<open>The dispatcher\<close>

text \<open>
  \<^verbatim>\<open>terncy_event_handler\<close>. The chain of comparisons on \<^verbatim>\<open>event_type\<close> is the source's. A
  handler is declared for one payload type; entities of another shape than the type of the
  message declares are outside the handler's input type and end the call with \<open>TypeError\<close>.
  The branch \<^verbatim>\<open>event_type is None\<close> is reached by an absent \<^verbatim>\<open>"type"\<close> key only: the empty
  string is a string like any other and goes to the last branch.
\<close>

definition terncy_event_handler :: "constants \<Rightarrow> event \<Rightarrow> gateway \<Rightarrow> error option \<times> gateway" where
  "terncy_event_handler c event g =
     (case event of
        EventMessage m \<Rightarrow>
          (case msg_entities m of
             None \<Rightarrow> (None, emit [Log Warning '''entities' not found in message!''] g)
           | Some msg_data \<Rightarrow>
               (let event_type = msg_type m in
                if event_type = Some ''report'' then
                  (case msg_data of ReportMsgData xs \<Rightarrow> (None, on_report xs g)
                   | _ \<Rightarrow> (Some TypeError, g))
                else if event_type = Some ''keyPressed'' then
                  (case msg_data of KeyPressedMsgData xs \<Rightarrow> on_key_pressed c xs g
                   | _ \<Rightarrow> (Some TypeError, g))
                else if event_type = Some ''keyLongPressed'' then
                  (case msg_data of SimpleMsgData xs \<Rightarrow> (None, on_key_long_pressed c xs g)
                   | _ \<Rightarrow> (Some TypeError, g))
                else if event_type = Some ''rotation'' then
                  (case msg_data of SimpleMsgData xs \<Rightarrow> (None, on_rotation c xs g)
                   | _ \<Rightarrow> (Some TypeError, g))
                else if event_type = Some ''entityAvailable'' then
                  (case msg_data of EntityAvailableMsgData xs \<Rightarrow> (None, on_entity_available c xs g)
                   | _ \<Rightarrow> (Some TypeError, g))
                else if event_type = Some ''entityDeleted'' then
                  (case msg_data of SimpleMsgData xs \<Rightarrow> (None, on_entity_deleted xs g)
                   | _ \<Rightarrow> (Some TypeError, g))
                else if event_type = Some ''entityCreated'' then
                  (case msg_data of EntityCreatedMsgData xs \<Rightarrow> (None, on_entity_created c xs g)
                   | _ \<Rightarrow> (Some TypeError, g))
                else if event_type = Some ''entityUpdated'' then
                  (case msg_data of EntityUpdatedMsgData xs \<Rightarrow> (None, on_entity_updated xs g)
                   | _ \<Rightarrow> (Some TypeError, g))
                else if event_type = Some ''offline'' then
                  (case msg_data of SimpleMsgData xs \<Rightarrow> (None, on_offline xs g)
                   | _ \<Rightarrow> (Some TypeError, g))
                else if event_type = None then
                  (None, emit [Log Debug ''event type is None, ignore. %s''] g)
                else
                  (None, emit [Log Warning ''unsupported event type: %s, entities: %s''] g)))
      | Connected \<Rightarrow> (None, emit [Log Info ''Connected: %s'', CreateTask TaskRefresh] g)
      | Disconnected \<Rightarrow>
          (let g1 = emit [Log Warning ''Disconnected: %s''] g;
               g2 = mark_unavailable (\<lambda>device. True) g1
           in (None, if \<not> stopped g2 then emit [CreateTask TaskReconnect] g2 else g2))
      | UnknownEvent \<Rightarrow> (None, emit [Log Warning ''Unknown Event: %s''] g))"


section \<open>Connection supervisor\<close>

text \<open>
  Modelled from the spec: the session client's \<^verbatim>\<open>stop\<close> is not in the source tree; by the
  spec (4.1) it tears the connection down. \<^verbatim>\<open>TerncyGateway.stop\<close> sets the flag and awaits
  it.
\<close>

definition stop :: "gateway \<Rightarrow> gateway" where
  "stop g = emit [ApiStop] (g\<lparr>stopped := True, is_connected := False\<rparr>)"

text \<open>
  \<^verbatim>\<open>reconnect\<close> is a coroutine with one suspension point before its connect call, the
  \<^verbatim>\<open>await asyncio.sleep(2)\<close>: other code of the event loop runs between the part before it
  and the part after it. \<open>reconnect_begin\<close> is the part before the sleep (it tells whether
  the coroutine went to sleep), \<open>reconnect_resume\<close> the part after it.
\<close>

definition reconnect_begin :: "gateway \<Rightarrow> bool \<times> gateway" where
  "reconnect_begin g =
     (if stopped g then (False, emit [Log Debug ''service stopped, don't retry''] g)
      else (True, g))"

definition reconnect_resume :: "gateway \<Rightarrow> gateway" where
  "reconnect_resume g =
     (if is_connected g then emit [Log Warning ''service is still connected while retry''] g
      else emit [Log Warning ''Start reconnecting...'', ApiStart] g)"

text \<open>
  The event loop around the gateway: \<open>scheduled\<close> counts the reconnect tasks that were
  created and have not started, \<open>sleeping\<close> those inside the sleep. An action of the
  loop delivers a session event to the handler, starts a scheduled reconnect task, resumes
  a sleeping one when its delay has elapsed, or runs a call of \<^verbatim>\<open>stop\<close> to its end. An
  action that is not enabled gives \<open>None\<close>. An exception that leaves the handler goes to the
  session client that called it; the gateway stays as the handler left it.
\<close>

record system =
  gw :: gateway
  scheduled :: nat
  sleeping :: nat

datatype action = Deliver event | StartReconnect | DelayElapsed | Stop

definition new_effects :: "gateway \<Rightarrow> gateway \<Rightarrow> effect list" where
  "new_effects g g' = drop (length (trace g)) (trace g')"

definition step :: "constants \<Rightarrow> action \<Rightarrow> system \<Rightarrow> system option" where
  "step c a s =
     (case a of
        Deliver ev \<Rightarrow>
          (let g' = snd (terncy_event_handler c ev (gw s)) in
           Some (s\<lparr>gw := g',
                   scheduled := scheduled s
                     + count_list (new_effects (gw s) g') (CreateTask TaskReconnect)\<rparr>))
      | StartReconnect \<Rightarrow>
          (if scheduled s = 0 then None
           else (let r = reconnect_begin (gw s) in
                 Some (s\<lparr>gw := snd r, scheduled := scheduled s - 1,
                         sleeping := (if fst r then Suc (sleeping s) else sleeping s)\<rparr>)))
      | DelayElapsed \<Rightarrow>
          (if sleeping s = 0 then None
           else Some (s\<lparr>gw := reconnect_resume (gw s), sleeping := sleeping s - 1\<rparr>))
      | Stop \<Rightarrow> Some (s\<lparr>gw := stop (gw s)\<rparr>))"

fun run :: "constants \<Rightarrow> action list \<Rightarrow> system \<Rightarrow> system option" where
  "run c [] s = Some s"
| "run c (a # as) s = (case step c a s of None \<Rightarrow> None | Some s' \<Rightarrow> run c as s')"


section \<open>Room names\<close>

text \<open>
  \<^verbatim>\<open>_fetch_data\<close>: the query may raise; a response without \<^verbatim>\<open>"rsp"\<close> (here \<open>None\<close>) is logged
  and gives the empty list.
\<close>

definition fetch_data :: "string \<Rightarrow> error + 'a list option \<Rightarrow> gateway \<Rightarrow> (error + 'a list) \<times> gateway" where
  "fetch_data ent_type response g =
     (let g1 = emit [ApiGetEntities ent_type] g in
      case response of
        Inl e \<Rightarrow> (Inl e, g1)
      | Inr None \<Rightarrow> (Inr [], emit [Log Warning ''fetch %s error, response: %s''] g1)
      | Inr (Some es) \<Rightarrow> (Inr es, g1))"

text \<open>
  The value expression of the dict comprehension,
  \<^verbatim>\<open>room["name"] or default_rooms.get(room["id"], "")\<close>. The right operand is evaluated only
  for an empty name; \<open>default_rooms\<close> is \<open>None\<close> when \<^verbatim>\<open>DEFAULT_ROOMS\<close> has neither the
  language nor \<^verbatim>\<open>"en"\<close>, and \<^verbatim>\<open>.get\<close> on it raises.
\<close>

definition resolve_room_name :: "(string \<Rightarrow> string option) option \<Rightarrow> room \<Rightarrow> error + string" where
  "resolve_room_name default_rooms r =
     (if room_name r \<noteq> [] then Inr (room_name r)
      else case default_rooms of
             None \<Rightarrow> Inl AttributeError
           | Some tbl \<Rightarrow> Inr (case tbl (room_id r) of None \<Rightarrow> [] | Some n \<Rightarrow> n))"

fun room_dict ::
  "(string \<Rightarrow> string option) option \<Rightarrow> room list \<Rightarrow> (string \<times> string) list \<Rightarrow> error + (string \<times> string) list" where
  "room_dict default_rooms [] acc = Inr acc"
| "room_dict default_rooms (r # rs) acc =
     (case resolve_room_name default_rooms r of
        Inl e \<Rightarrow> Inl e
      | Inr n \<Rightarrow> room_dict default_rooms rs (dict_set (room_id r) n acc))"

text \<open>
  The room section of \<^verbatim>\<open>async_refresh_devices\<close>: the \<^verbatim>\<open>try\<close> block with its handler. An
  exception of the fetch or of the comprehension is logged and \<^verbatim>\<open>room_data\<close> keeps its
  value.
\<close>

definition refresh_rooms :: "constants \<Rightarrow> string \<Rightarrow> error + room list option \<Rightarrow> gateway \<Rightarrow> gateway" where
  "refresh_rooms c lang response g =
     (let g0 = emit [Log Debug ''Fetching data...''] g;
          default_rooms = (case DEFAULT_ROOMS c lang of
                             Some tbl \<Rightarrow> Some tbl
                           | None \<Rightarrow> DEFAULT_ROOMS c ''en'');
          fetched = fetch_data ''room'' response g0;
          g1 = snd fetched
      in case fst fetched of
           Inl e \<Rightarrow> emit [Log Warning ''fetch room error: %s''] g1
         | Inr rooms \<Rightarrow>
             (case room_dict default_rooms rooms [] of
                Inl e \<Rightarrow> emit [Log Warning ''fetch room error: %s''] g1
              | Inr d \<Rightarrow> emit [Log Debug ''ROOM %s: %s''] (g1\<lparr>room_data := d\<rparr>)))"


section \<open>Notions used to state the properties\<close>

text \<open>The callbacks in \<^verbatim>\<open>self._listeners[eid]\<close>, none for an eid without an entry.\<close>

definition registered :: "gateway \<Rightarrow> string \<Rightarrow> nat list" where
  "registered g e = (case map_of (listeners g) e of None \<Rightarrow> [] | Some ls \<Rightarrow> ls)"

text \<open>
  The two channels of a key press: the trigger on the local device of the eid, if
  \<^verbatim>\<open>parsed_devices\<close> has one, and the event on the host bus, if the host registry has a
  device entry for the eid.
\<close>

definition local_trigger :: "gateway \<Rightarrow> string \<Rightarrow> string \<Rightarrow> int \<Rightarrow> effect list" where
  "local_trigger g e event_type t =
     (case map_of (parsed_devices g) e of
        Some device \<Rightarrow> [TriggerEvent (eid device) event_type (Some t)]
      | None \<Rightarrow> [])"

definition host_event :: "constants \<Rightarrow> gateway \<Rightarrow> string \<Rightarrow> int \<Rightarrow> effect list" where
  "host_event c g e t =
     (case async_get_device g e of
        Some device_entry \<Rightarrow> [BusFire (DOMAIN c @ ''_'' @ ACTION_PRESSED c) device_entry e (Some t)]
      | None \<Rightarrow> [])"

text \<open>The type strings the dispatcher has a branch for.\<close>

definition handled_types :: "string list" where
  "handled_types = [''report'', ''keyPressed'', ''keyLongPressed'', ''rotation'', ''entityAvailable'',
     ''entityDeleted'', ''entityCreated'', ''entityUpdated'', ''offline'']"

text \<open>
  The dict \<^verbatim>\<open>will_delete\<close> of \<^verbatim>\<open>_on_entity_deleted\<close>; the device objects under a list of eids,
  each marked unavailable; and the calls on the host registry for a list of eids: a removal,
  with its log record, for each eid that has a device entry.
\<close>

definition will_delete :: "string \<Rightarrow> gateway \<Rightarrow> (string \<times> terncy_device) list" where
  "will_delete d g = filter (\<lambda>kv. d = did (snd kv)) (parsed_devices g)"

definition marked_unavailable :: "(string \<times> terncy_device) list \<Rightarrow> string list \<Rightarrow> terncy_device list" where
  "marked_unavailable ds es =
     concat (map (\<lambda>e. case map_of ds e of
                          Some device \<Rightarrow> [device\<lparr>available := False\<rparr>]
                        | None \<Rightarrow> []) es)"

definition removal_calls :: "(string \<times> nat) list \<Rightarrow> string list \<Rightarrow> effect list" where
  "removal_calls reg es =
     concat (map (\<lambda>e. case map_of reg e of
                          Some i \<Rightarrow> [RemoveDevice i, Log Debug ''removed device_entry: %s %s'']
                        | None \<Rightarrow> []) es)"

text \<open>
  The table \<^verbatim>\<open>default_rooms\<close> of \<^verbatim>\<open>async_refresh_devices\<close>, and the name a room resolves to
  when that table exists.
\<close>

definition locale_table :: "constants \<Rightarrow> string \<Rightarrow> (string \<Rightarrow> string option) option" where
  "locale_table c lang =
     (case DEFAULT_ROOMS c lang of Some tbl \<Rightarrow> Some tbl | None \<Rightarrow> DEFAULT_ROOMS c ''en'')"

definition resolved_name :: "(string \<Rightarrow> string option) \<Rightarrow> room \<Rightarrow> string" where
  "resolved_name tbl r =
     (if room_name r \<noteq> [] then room_name r
      else case tbl (room_id r) of None \<Rightarrow> [] | Some n \<Rightarrow> n)"








text \<open>Concrete values for the examples.\<close>

definition example_constants :: constants where
  "example_constants =
     \<lparr>ACTION_LONG_PRESS = ''long_press'', ACTION_PRESSED = ''pressed'',
      ACTION_ROTATION = ''rotation'', ACTION_SINGLE_PRESS = ''single_press'',
      DOMAIN = ''terncy'', TERNCY_MANU_NAME = ''Xiaoyan'',
      EVENT_ENTITY_BUTTON_EVENTS =
        [1 \<mapsto> ''single_press'', 2 \<mapsto> ''double_press'', 3 \<mapsto> ''triple_press''],
      DEFAULT_ROOMS = [''en'' \<mapsto> [''area-0001'' \<mapsto> ''Living Room'']],
      PROFILES = [1 \<mapsto> [\<lparr>key = ''switch'', desc_name = ''Switch'', required_attrs = []\<rparr>]]\<rparr>"

definition example_device :: terncy_device where
  "example_device =
     \<lparr>did = ''d1'', eid = ''d1-01'', profile = Some 1, entities = [], available = True,
      dev_state = Map.empty\<rparr>"

definition example_scene :: terncy_entity where
  "example_scene =
     \<lparr>ent_eid = ''scene-1'', ent_key = ''scene'', attr_name = ''Evening'', ent_available = True,
      ent_state = [''on'' \<mapsto> PInt 1]\<rparr>"

definition example_gateway :: gateway where
  "example_gateway =
     \<lparr>stopped = False, parsed_devices = [(''d1-01'', example_device)],
      listeners = [(''d1-01'', [0])], room_data = [],
      scenes = [(''scene-1'', example_scene)], detached_devices = [], detached_scenes = [],
      gw_name = ''hub'', mac = ''12:34:56:78:90:ab'',
      export_device_groups = True, export_scenes = True, unique_id = ''box-12-34-56-78-90-ab'',
      is_connected = False, device_registry = [(''d1-01'', 7)], next_entry_id = 8, trace = []\<rparr>"




section \<open>Basic facts\<close>

lemma emit_emit: "emit es' (emit es g) = emit (es @ es') g"
  by (simp add: emit_def)

lemma parsed_devices_emit [simp]: "parsed_devices (emit es g) = parsed_devices g"
  by (simp add: emit_def)

lemma async_get_device_emit: "async_get_device (emit es g) e = async_get_device g e"
  by (simp add: async_get_device_def emit_def)

lemma registered_emit: "registered (emit es g) e = registered g e"
  by (simp add: registered_def emit_def)

lemma update_listeners_emit:
  "update_listeners e data g = emit (map (\<lambda>l. ListenerCall l data) (registered g e)) g"
  by (simp add: update_listeners_def registered_def emit_def split: option.splits)

lemma map_of_dict_set: "map_of (dict_set k v kvs) k' = (if k' = k then Some v else map_of kvs k')"
  by (induction kvs) auto


lemma map_of_dict_pop: "map_of (dict_pop k xs) k' = (if k' = k then None else map_of xs k')"
  by (induction xs) (auto simp: dict_pop_def)

lemma map_of_mutate:
  "map_of (mutate k f xs) k' = (if k' = k then map_option f (map_of xs k) else map_of xs k')"
  by (induction xs) (auto simp: mutate_def)

lemma map_fst_mutate: "map fst (mutate k f xs) = map fst xs"
  by (induction xs) (auto simp: mutate_def)








lemma pop_mutate: "dict_pop k (mutate k f xs) = dict_pop k xs"
  by (induction xs) (auto simp: dict_pop_def mutate_def)

lemma add_listener_registered: "listener \<in> set (registered (add_listener place e listener g) e)"
  by (auto simp: registered_def add_listener_def map_of_dict_set split: option.splits)

lemma for_each_append:
  "for_each body (xs @ ys) g =
     (case for_each body xs g of (Some e, g') \<Rightarrow> (Some e, g') | (None, g') \<Rightarrow> for_each body ys g')"
  by (induction xs arbitrary: g) (auto split: prod.splits option.splits)




section \<open>Disconnect and reconnect\<close>

text \<open>
  What the handler does on \<open>Disconnected\<close>: every device of \<^verbatim>\<open>parsed_devices\<close> is marked
  unavailable, and a reconnect task is created, once, exactly when the gateway is not
  stopped.
\<close>

lemma disconnected_handler:
  "terncy_event_handler c Disconnected g =
     (None, emit (Log Warning ''Disconnected: %s'' # (if stopped g then [] else [CreateTask TaskReconnect]))
              (mark_unavailable (\<lambda>device. True) g))"
  by (simp add: terncy_event_handler_def Let_def mark_unavailable_def emit_def)

lemma disconnected_marks_unavailable:
  "kv \<in> set (parsed_devices (snd (terncy_event_handler c Disconnected g))) \<Longrightarrow> \<not> available (snd kv)"
  by (auto simp: disconnected_handler mark_unavailable_def set_available_def)

lemma disconnected_keeps_keys:
  "map fst (parsed_devices (snd (terncy_event_handler c Disconnected g))) = map fst (parsed_devices g)"
  by (simp add: disconnected_handler mark_unavailable_def comp_def)

lemma disconnected_schedules_once:
  "count_list (new_effects g (snd (terncy_event_handler c Disconnected g))) (CreateTask TaskReconnect)
     = (if stopped g then 0 else 1)"
  by (simp add: disconnected_handler new_effects_def emit_def mark_unavailable_def)

text \<open>
  The flag is read once, by the part of \<^verbatim>\<open>reconnect\<close> before the sleep: a gateway stopped
  by then makes the coroutine return without a connect call.
\<close>

lemma reconnect_begin_stopped:
  "stopped g \<Longrightarrow> reconnect_begin g = (False, emit [Log Debug ''service stopped, don't retry''] g)"
  by (simp add: reconnect_begin_def)

text \<open>
  C1. A Disconnected event that arrives while the gateway is not stopped marks every device
  unavailable and schedules one reconnect; a call of \<^verbatim>\<open>stop\<close> that completes before the delay
  of the reconnect routine has elapsed should keep the routine from connecting. The run
  below delivers Disconnected to a gateway that is not stopped, lets the scheduled
  reconnect task start (it reads the flag and goes to sleep), runs \<^verbatim>\<open>stop\<close> to its end
  during the sleep, and then lets the delay elapse: the routine reads only the connection
  state, finds it down, and calls the session client's \<^verbatim>\<open>start\<close> after the \<^verbatim>\<open>stop\<close>.
\<close>

theorem reconnect_connects_after_stop:
  "run example_constants [Deliver Disconnected, StartReconnect, Stop, DelayElapsed]
     \<lparr>gw = example_gateway, scheduled = 0, sleeping = 0\<rparr>
   = Some \<lparr>gw = example_gateway
              \<lparr>stopped := True,
               parsed_devices := [(''d1-01'', example_device\<lparr>available := False\<rparr>)],
               trace := [Log Warning ''Disconnected: %s'', CreateTask TaskReconnect, ApiStop,
                         Log Warning ''Start reconnecting...'', ApiStart]\<rparr>,
            scheduled = 0, sleeping = 0\<rparr>"
  by (simp add: step_def terncy_event_handler_def Let_def mark_unavailable_def emit_def
      new_effects_def reconnect_begin_def reconnect_resume_def stop_def example_gateway_def
      set_available_def)


section \<open>Entity deletion\<close>

lemma delete_device_step_eq:
  "delete_device_step e g =
     g\<lparr>parsed_devices := dict_pop e (parsed_devices g),
       detached_devices := detached_devices g @ marked_unavailable (parsed_devices g) [e],
       device_registry := (case map_of (device_registry g) e of
                             Some i \<Rightarrow> filter (\<lambda>x. snd x \<noteq> i) (device_registry g)
                           | None \<Rightarrow> device_registry g),
       trace := trace g @ removal_calls (device_registry g) [e]\<rparr>"
  by (simp add: delete_device_step_def Let_def mutate_device_def async_get_device_def
      async_remove_device_def emit_def removal_calls_def pop_mutate pop_device_def
      marked_unavailable_def map_of_mutate set_available_def split: option.splits)

text \<open>
  With entry ids that name one entry each, removing the entry of one eid leaves the entry
  of another eid in place.
\<close>

lemma map_of_filter_other_id:
  "distinct (map snd reg) \<Longrightarrow> map_of reg e = Some i \<Longrightarrow> e' \<noteq> e \<Longrightarrow>
     map_of (filter (\<lambda>x. snd x \<noteq> i) reg) e' = map_of reg e'"
proof (induction reg)
  case Nil
  then show ?case by simp
next
  case (Cons x reg)
  obtain k j where x: "x = (k, j)" by (cases x)
  show ?case
  proof (cases "j = i")
    case True
    with Cons.prems x have notin: "i \<notin> snd ` set reg" by auto
    have ke: "k = e"
    proof (rule ccontr)
      assume "k \<noteq> e"
      with Cons.prems x have "map_of reg e = Some i" by simp
      then have "(e, i) \<in> set reg" by (rule map_of_SomeD)
      with notin show False by force
    qed
    from notin have "filter (\<lambda>x. snd x \<noteq> i) reg = reg"
      by (induction reg) auto
    with True x ke Cons.prems show ?thesis by simp
  next
    case False
    with Cons.prems x have "k \<noteq> e" by auto
    with Cons x False show ?thesis by auto
  qed
qed

lemma removal_calls_filter:
  assumes "distinct (map snd reg)" and "map_of reg e = Some i" and "e \<notin> set es"
  shows "removal_calls (filter (\<lambda>x. snd x \<noteq> i) reg) es = removal_calls reg es"
proof -
  have "\<forall>e' \<in> set es. map_of (filter (\<lambda>x. snd x \<noteq> i) reg) e' = map_of reg e'"
    using assms map_of_filter_other_id by metis
  then show ?thesis
    unfolding removal_calls_def by (induction es) auto
qed

lemma removal_calls_Cons:
  "removal_calls reg (e # es) = removal_calls reg [e] @ removal_calls reg es"
  by (simp add: removal_calls_def)

lemma marked_unavailable_Cons:
  "marked_unavailable ds (e # es) = marked_unavailable ds [e] @ marked_unavailable ds es"
  by (simp add: marked_unavailable_def)

lemma marked_unavailable_pop:
  "e \<notin> set es \<Longrightarrow> marked_unavailable (dict_pop e ds) es = marked_unavailable ds es"
  unfolding marked_unavailable_def by (induction es) (auto simp: map_of_dict_pop)

lemma delete_loop:
  assumes "distinct es" and "distinct (map snd (device_registry g))"
  shows "parsed_devices (foldl (\<lambda>g' e. delete_device_step e g') g es)
           = filter (\<lambda>kv. fst kv \<notin> set es) (parsed_devices g)
       \<and> detached_devices (foldl (\<lambda>g' e. delete_device_step e g') g es)
           = detached_devices g @ marked_unavailable (parsed_devices g) es
       \<and> trace (foldl (\<lambda>g' e. delete_device_step e g') g es)
           = trace g @ removal_calls (device_registry g) es
       \<and> scenes (foldl (\<lambda>g' e. delete_device_step e g') g es) = scenes g
       \<and> detached_scenes (foldl (\<lambda>g' e. delete_device_step e g') g es) = detached_scenes g"
  using assms
proof (induction es arbitrary: g)
  case Nil
  then show ?case by (simp add: removal_calls_def marked_unavailable_def)
next
  case (Cons e es)
  let ?g1 = "delete_device_step e g"
  have d1: "distinct (map snd (device_registry ?g1))"
    using Cons.prems(2) by (simp add: delete_device_step_eq distinct_map_filter split: option.splits)
  have calls: "removal_calls (device_registry ?g1) es = removal_calls (device_registry g) es"
    using Cons.prems removal_calls_filter[of "device_registry g" e _ es]
    by (simp add: delete_device_step_eq split: option.splits)
  have marks: "marked_unavailable (parsed_devices ?g1) es = marked_unavailable (parsed_devices g) es"
    using Cons.prems(1) by (simp add: delete_device_step_eq marked_unavailable_pop)
  have pd: "filter (\<lambda>kv. fst kv \<notin> set es) (parsed_devices ?g1)
             = filter (\<lambda>kv. fst kv \<notin> set (e # es)) (parsed_devices g)"
    by (auto simp: delete_device_step_eq dict_pop_def intro: filter_cong)
  from Cons.IH[OF _ d1] Cons.prems(1) calls marks pd show ?case
    by (simp add: removal_calls_Cons[of _ e es] marked_unavailable_Cons[of _ e es])
      (simp add: delete_device_step_eq)
qed

lemma filter_keys_of_filter:
  assumes "distinct (map fst xs)"
  shows "filter (\<lambda>kv. fst kv \<notin> set (map fst (filter P xs))) xs = filter (\<lambda>kv. \<not> P kv) xs"
proof (intro filter_cong refl)
  fix kv assume kv: "kv \<in> set xs"
  have "fst kv \<in> fst ` {y \<in> set xs. P y} \<longleftrightarrow> P kv"
  proof
    assume "fst kv \<in> fst ` {y \<in> set xs. P y}"
    then obtain y where y: "y \<in> set xs" "P y" "fst y = fst kv" by auto
    from assms kv y have "snd y = snd kv"
      by (metis eq_key_imp_eq_value prod.collapse)
    with y show "P kv" by (metis prod.collapse)
  next
    assume "P kv"
    with kv show "fst kv \<in> fst ` {y \<in> set xs. P y}" by auto
  qed
  then show "(fst kv \<notin> set (map fst (filter P xs))) = (\<not> P kv)" by simp
qed

text \<open>In a dict with distinct keys, every key named by some entries holds that entry's object.\<close>

lemma marked_unavailable_entries:
  assumes "distinct (map fst ds)" and "set ws \<subseteq> set ds"
  shows "marked_unavailable ds (map fst ws) = map (\<lambda>kv. (snd kv)\<lparr>available := False\<rparr>) ws"
  using assms(2)
proof (induction ws)
  case Nil
  show ?case by (simp add: marked_unavailable_def)
next
  case (Cons w ws)
  then have "w \<in> set ds" by simp
  with assms(1) have "map_of ds (fst w) = Some (snd w)"
    by (metis map_of_is_SomeI prod.collapse)
  with Cons show ?case
    by (simp add: marked_unavailable_Cons[of ds "fst w" "map fst ws"])
      (simp add: marked_unavailable_def)
qed

text \<open>
  C2, as the code has it. For an id of an entityDeleted message: an id with the scene prefix
  whose scene is in the scenes map marks that scene unavailable, removes it from the map
  and issues exactly one removal call on the host's entity registry; an id with the prefix
  and no scene changes nothing; any other id is a device id, every device with that device
  id is marked unavailable and leaves \<^verbatim>\<open>parsed_devices\<close> (the objects removed are exactly
  these devices, each with its flag cleared), and the host's device registry gets one
  removal call for each removed device that has a device entry there, none for a removed
  device without one. (Keys of \<^verbatim>\<open>parsed_devices\<close> are distinct, and so are the ids of the
  registry's entries.)
\<close>

theorem entity_deleted_removes:
  "(prefix ''scene-'' (item_id it) \<and> map_of (scenes g) (item_id it) = Some scene \<longrightarrow>
      entity_deleted_step it g
        = g\<lparr>scenes := dict_pop (item_id it) (scenes g),
            detached_scenes := detached_scenes g @ [scene\<lparr>ent_available := False\<rparr>],
            trace := trace g @ [RemoveEntity (ent_eid scene)]\<rparr>)
 \<and> (prefix ''scene-'' (item_id it) \<and> map_of (scenes g) (item_id it) = None \<longrightarrow>
      entity_deleted_step it g = g)
 \<and> (\<not> prefix ''scene-'' (item_id it) \<and> distinct (map fst (parsed_devices g))
      \<and> distinct (map snd (device_registry g)) \<longrightarrow>
      parsed_devices (entity_deleted_step it g)
        = filter (\<lambda>kv. did (snd kv) \<noteq> item_id it) (parsed_devices g)
    \<and> detached_devices (entity_deleted_step it g)
        = detached_devices g
          @ map (\<lambda>kv. (snd kv)\<lparr>available := False\<rparr>) (will_delete (item_id it) g)
    \<and> new_effects g (entity_deleted_step it g)
        = removal_calls (device_registry g) (map fst (will_delete (item_id it) g))
    \<and> scenes (entity_deleted_step it g) = scenes g
    \<and> detached_scenes (entity_deleted_step it g) = detached_scenes g)"
proof -
  have a: "prefix ''scene-'' (item_id it) \<Longrightarrow> map_of (scenes g) (item_id it) = Some scene \<Longrightarrow>
      entity_deleted_step it g
        = g\<lparr>scenes := dict_pop (item_id it) (scenes g),
            detached_scenes := detached_scenes g @ [scene\<lparr>ent_available := False\<rparr>],
            trace := trace g @ [RemoveEntity (ent_eid scene)]\<rparr>"
    by (simp add: entity_deleted_step_def Let_def mutate_scene_def pop_scene_def pop_mutate
        map_of_mutate ent_set_available_def emit_def)
  have b: "prefix ''scene-'' (item_id it) \<Longrightarrow> map_of (scenes g) (item_id it) = None \<Longrightarrow>
      entity_deleted_step it g = g"
    by (simp add: entity_deleted_step_def)
  have c: "parsed_devices (entity_deleted_step it g)
        = filter (\<lambda>kv. did (snd kv) \<noteq> item_id it) (parsed_devices g)
    \<and> detached_devices (entity_deleted_step it g)
        = detached_devices g
          @ map (\<lambda>kv. (snd kv)\<lparr>available := False\<rparr>) (will_delete (item_id it) g)
    \<and> new_effects g (entity_deleted_step it g)
        = removal_calls (device_registry g) (map fst (will_delete (item_id it) g))
    \<and> scenes (entity_deleted_step it g) = scenes g
    \<and> detached_scenes (entity_deleted_step it g) = detached_scenes g"
    if np: "\<not> prefix ''scene-'' (item_id it)" and dk: "distinct (map fst (parsed_devices g))"
      and dr: "distinct (map snd (device_registry g))"
  proof -
    let ?es = "map fst (will_delete (item_id it) g)"
    have step: "entity_deleted_step it g = foldl (\<lambda>g' e. delete_device_step e g') g ?es"
      using np by (simp add: entity_deleted_step_def Let_def will_delete_def foldl_map)
    have des: "distinct ?es"
      using dk by (simp add: will_delete_def distinct_map_filter)
    have f: "filter (\<lambda>kv. fst kv \<notin> set ?es) (parsed_devices g)
             = filter (\<lambda>kv. did (snd kv) \<noteq> item_id it) (parsed_devices g)"
      using filter_keys_of_filter[OF dk, of "\<lambda>kv. item_id it = did (snd kv)"]
      by (simp add: will_delete_def) (metis)
    have mk: "marked_unavailable (parsed_devices g) ?es
             = map (\<lambda>kv. (snd kv)\<lparr>available := False\<rparr>) (will_delete (item_id it) g)"
      by (rule marked_unavailable_entries[OF dk]) (simp add: will_delete_def)
    from delete_loop[OF des dr] f mk show ?thesis
      by (simp add: step new_effects_def)
  qed
  from a b c show ?thesis by blast
qed

theorem entity_deleted_removes_witness:
  "entity_deleted_step \<lparr>item_id = ''scene-1''\<rparr> example_gateway
     = example_gateway\<lparr>scenes := [],
                      detached_scenes := [example_scene\<lparr>ent_available := False\<rparr>],
                      trace := [RemoveEntity ''scene-1'']\<rparr>
   \<and> entity_deleted_step \<lparr>item_id = ''scene-2''\<rparr> example_gateway = example_gateway
   \<and> parsed_devices (entity_deleted_step \<lparr>item_id = ''d1''\<rparr> example_gateway) = []
   \<and> detached_devices (entity_deleted_step \<lparr>item_id = ''d1''\<rparr> example_gateway)
     = [example_device\<lparr>available := False\<rparr>]
   \<and> new_effects example_gateway (entity_deleted_step \<lparr>item_id = ''d1''\<rparr> example_gateway)
     = [RemoveDevice 7, Log Debug ''removed device_entry: %s %s'']"
  using entity_deleted_removes[of "\<lparr>item_id = ''scene-1''\<rparr>" example_gateway example_scene]
     entity_deleted_removes[of "\<lparr>item_id = ''scene-2''\<rparr>" example_gateway example_scene]
     entity_deleted_removes[of "\<lparr>item_id = ''d1''\<rparr>" example_gateway example_scene]
  by (simp add: example_gateway_def example_scene_def example_device_def dict_pop_def
      will_delete_def removal_calls_def)

text \<open>
  C2 as stated asks one removal call on the host registry for every id of the message.
  The device \<^verbatim>\<open>d1-01\<close> of device id \<^verbatim>\<open>d1\<close> is known to the gateway and the host registry has no
  device entry for it: the entityDeleted message for \<^verbatim>\<open>d1\<close> marks the device unavailable and
  removes it, and issues no removal call. The id \<^verbatim>\<open>scene-2\<close> has the scene prefix and the
  scenes map has no scene for it: the message for it removes nothing and issues no removal
  call. In both runs only the handler's log record is left in the trace.
\<close>

theorem entity_deleted_without_registry_entry:
  "on_entity_deleted [\<lparr>item_id = ''d1''\<rparr>] (example_gateway\<lparr>device_registry := []\<rparr>)
     = example_gateway\<lparr>device_registry := [], parsed_devices := [],
                      detached_devices := [example_device\<lparr>available := False\<rparr>],
                      trace := [Log Debug ''EVENT: entityDeleted: %s'']\<rparr>
   \<and> on_entity_deleted [\<lparr>item_id = ''scene-2''\<rparr>] example_gateway
     = example_gateway\<lparr>trace := [Log Debug ''EVENT: entityDeleted: %s'']\<rparr>"
  by (simp add: on_entity_deleted_def entity_deleted_step_def Let_def example_gateway_def
      example_device_def delete_device_step_eq emit_def removal_calls_def dict_pop_def
      marked_unavailable_def)


section \<open>Device setup\<close>

lemma parsed_devices_get_or_create [simp]:
  "parsed_devices (async_get_or_create rc g) = parsed_devices g"
  by (simp add: async_get_or_create_def split: option.splits)

lemma parsed_devices_mutate_device [simp]:
  "parsed_devices (mutate_device e f g) = mutate e f (parsed_devices g)"
  by (simp add: mutate_device_def)

lemma parsed_devices_add_device [simp]:
  "parsed_devices (add_device e d g) = dict_set e d (parsed_devices g)"
  by (simp add: add_device_def)



















section \<open>Dispatch by type\<close>

text \<open>
  C4, as the code has it. A message without the \<^verbatim>\<open>entities\<close> key is logged with a warning
  and dropped, whatever its type. With the key present: a message whose type is unset leaves
  one debug record and nothing else; a message whose type is any string without a handler,
  the empty string among them, leaves one warning record and nothing else. In no case is a
  handler run, the state changed or a listener called.
\<close>

theorem dispatch_unrecognised_type:
  "(msg_entities m = None \<longrightarrow>
      terncy_event_handler c (EventMessage m) g
        = (None, emit [Log Warning '''entities' not found in message!''] g))
 \<and> (msg_entities m = Some msg_data \<and> msg_type m = None \<longrightarrow>
      terncy_event_handler c (EventMessage m) g
        = (None, emit [Log Debug ''event type is None, ignore. %s''] g))
 \<and> (msg_entities m = Some msg_data \<and> msg_type m = Some t \<and> t \<notin> set handled_types \<longrightarrow>
      terncy_event_handler c (EventMessage m) g
        = (None, emit [Log Warning ''unsupported event type: %s, entities: %s''] g))"
  by (auto simp: terncy_event_handler_def handled_types_def)

theorem dispatch_unrecognised_type_witness:
  "terncy_event_handler example_constants
     (EventMessage \<lparr>msg_type = None, msg_entities = None\<rparr>) example_gateway
     = (None, emit [Log Warning '''entities' not found in message!''] example_gateway)
   \<and> terncy_event_handler example_constants
     (EventMessage \<lparr>msg_type = None, msg_entities = Some (SimpleMsgData [])\<rparr>) example_gateway
     = (None, emit [Log Debug ''event type is None, ignore. %s''] example_gateway)
   \<and> terncy_event_handler example_constants
     (EventMessage \<lparr>msg_type = Some ''ping'', msg_entities = Some (SimpleMsgData [])\<rparr>) example_gateway
     = (None, emit [Log Warning ''unsupported event type: %s, entities: %s''] example_gateway)"
  using dispatch_unrecognised_type[of "\<lparr>msg_type = None, msg_entities = None\<rparr>"
      example_constants example_gateway]
    dispatch_unrecognised_type[of "\<lparr>msg_type = None, msg_entities = Some (SimpleMsgData [])\<rparr>"
      example_constants example_gateway "SimpleMsgData []"]
    dispatch_unrecognised_type[of "\<lparr>msg_type = Some ''ping'', msg_entities = Some (SimpleMsgData [])\<rparr>"
      example_constants example_gateway "SimpleMsgData []" "''ping''"]
  by (simp add: handled_types_def)

text \<open>
  C4 as stated has a message with an empty type ignored silently, unlike other unrecognised
  types. The message with type \<^verbatim>\<open>""\<close> and an empty entities list is not in the branch for an
  unset type: it gets the warning record of an unsupported type.
\<close>

theorem empty_type_logged_as_unsupported:
  "terncy_event_handler example_constants
     (EventMessage \<lparr>msg_type = Some [], msg_entities = Some (SimpleMsgData [])\<rparr>) example_gateway
   = (None, emit [Log Warning ''unsupported event type: %s, entities: %s''] example_gateway)"
  by (simp add: terncy_event_handler_def)


section \<open>Commands\<close>

text \<open>
  C5. \<^verbatim>\<open>set_attribute\<close> and \<^verbatim>\<open>set_attributes\<close> send the write through the session client
  first. If the write raises, the exception leaves the call and nothing else has happened:
  the gateway is as before but for the record of the attempted write, and no listener was
  called. If the write succeeds, the written pairs are passed at once to every listener
  registered for the eid, after the write and with no other effect.
\<close>

theorem set_attribute_write_then_notify:
  "set_attribute (Some err) e a v m g = (Some err, emit [ApiSetAttribute e a v m] g)
   \<and> set_attribute None e a v m g =
       (None, emit (ApiSetAttribute e a v m # map (\<lambda>l. ListenerCall l [(a, v)]) (registered g e)) g)
   \<and> set_attributes (Some err) e attrs m g = (Some err, emit [ApiSetAttributes e attrs m] g)
   \<and> set_attributes None e attrs m g =
       (None, emit (ApiSetAttributes e attrs m # map (\<lambda>l. ListenerCall l attrs) (registered g e)) g)"
  by (simp add: set_attribute_def set_attributes_def update_listeners_emit emit_emit registered_emit)


section \<open>Scenes without actions\<close>

text \<open>
  C6. With scene export enabled and an empty (or absent) actions list, \<^verbatim>\<open>setup_scene\<close>
  leaves the gateway exactly as it was when the scenes map has no scene of that id; when it
  has one, that scene is marked unavailable and is otherwise as before (its display name at
  first), the map keeps its keys and its other scenes, and nothing but the scenes map
  changes.
\<close>

theorem setup_scene_without_actions:
  assumes "export_scenes g" and "sc_actions scene_data = None \<or> sc_actions scene_data = Some []"
  shows "(map_of (scenes g) (sc_id scene_data) = None \<longrightarrow> setup_scene scene_data g = g)
       \<and> (\<forall>entity. map_of (scenes g) (sc_id scene_data) = Some entity \<longrightarrow>
            setup_scene scene_data g = mutate_scene (sc_id scene_data) (ent_set_available False) g
          \<and> map_of (scenes (setup_scene scene_data g)) (sc_id scene_data)
               = Some (entity\<lparr>ent_available := False\<rparr>)
          \<and> attr_name (the (map_of (scenes (setup_scene scene_data g)) (sc_id scene_data)))
               = attr_name entity
          \<and> map fst (scenes (setup_scene scene_data g)) = map fst (scenes g)
          \<and> (\<forall>k. k \<noteq> sc_id scene_data \<longrightarrow>
                map_of (scenes (setup_scene scene_data g)) k = map_of (scenes g) k)
          \<and> setup_scene scene_data g = g\<lparr>scenes := scenes (setup_scene scene_data g)\<rparr>)"
  using assms
  by (auto simp: setup_scene_def mutate_scene_def map_of_mutate map_fst_mutate ent_set_available_def)

theorem setup_scene_without_actions_witness:
  "export_scenes example_gateway
   \<and> setup_scene \<lparr>sc_id = ''scene-1'', sc_name = Some ''Night'', sc_actions = Some [],
                   sc_online = None, sc_on = PInt 0\<rparr> example_gateway
       = example_gateway\<lparr>scenes := [(''scene-1'', example_scene\<lparr>ent_available := False\<rparr>)]\<rparr>
   \<and> setup_scene \<lparr>sc_id = ''scene-2'', sc_name = Some ''Night'', sc_actions = None,
                   sc_online = None, sc_on = PInt 0\<rparr> example_gateway
       = example_gateway"
  using setup_scene_without_actions[of example_gateway
      "\<lparr>sc_id = ''scene-1'', sc_name = Some ''Night'', sc_actions = Some [],
        sc_online = None, sc_on = PInt 0\<rparr>"]
    setup_scene_without_actions[of example_gateway
      "\<lparr>sc_id = ''scene-2'', sc_name = Some ''Night'', sc_actions = None,
        sc_online = None, sc_on = PInt 0\<rparr>"]
  by (simp add: example_gateway_def mutate_scene_def mutate_def ent_set_available_def)


section \<open>Key presses\<close>

lemma key_pressed_step_label:
  assumes "kp_attributes entity_data = Some (a # others)"
    and "(if 1 \<le> times a \<and> times a \<le> 9 then EVENT_ENTITY_BUTTON_EVENTS c (times a)
          else Some (ACTION_SINGLE_PRESS c)) = Some event_type"
  shows "key_pressed_step c entity_data g =
           (None, emit (local_trigger g (kp_id entity_data) event_type (times a)
                        @ host_event c g (kp_id entity_data) (times a)) g)"
  using assms
  by (simp add: key_pressed_step_def Let_def local_trigger_def host_event_def trigger_event_def
      async_get_device_emit emit_emit split: option.splits) (simp_all add: emit_def)

text \<open>
  C7. A keyPressed payload with \<^verbatim>\<open>times\<close> 3, the table having a label for 3 presses: the
  handler raises no exception and its effects are exactly the local trigger with that label
  and \<^verbatim>\<open>times\<close> 3, present if and only if the gateway has a device for the eid, followed by
  the host bus event with \<^verbatim>\<open>times\<close> 3, present if and only if the host registry has a device
  entry for the eid. Each channel fires or not on its own target alone.
\<close>

theorem key_pressed_three_times:
  assumes "kp_attributes entity_data = Some (a # others)" and "times a = 3"
    and "EVENT_ENTITY_BUTTON_EVENTS c 3 = Some label"
  shows "key_pressed_step c entity_data g =
           (None, emit (local_trigger g (kp_id entity_data) label 3
                        @ host_event c g (kp_id entity_data) 3) g)
       \<and> on_key_pressed c [entity_data] g =
           (None, emit (Log Debug ''EVENT: keyPressed: %s''
                        # local_trigger g (kp_id entity_data) label 3
                        @ host_event c g (kp_id entity_data) 3) g)"
proof -
  have s: "key_pressed_step c entity_data g' =
           (None, emit (local_trigger g' (kp_id entity_data) label 3
                        @ host_event c g' (kp_id entity_data) 3) g')" for g'
    using key_pressed_step_label[of entity_data a others c label g'] assms by simp
  show ?thesis
    by (simp add: s on_key_pressed_def emit_emit local_trigger_def host_event_def
        async_get_device_emit)
qed

theorem key_pressed_three_times_witness:
  "kp_attributes \<lparr>kp_id = ''d1-01'', kp_attributes = Some [\<lparr>times = 3\<rparr>]\<rparr> = Some [\<lparr>times = 3\<rparr>]
   \<and> times \<lparr>times = 3\<rparr> = 3
   \<and> EVENT_ENTITY_BUTTON_EVENTS example_constants 3 = Some ''triple_press''
   \<and> key_pressed_step example_constants \<lparr>kp_id = ''d1-01'', kp_attributes = Some [\<lparr>times = 3\<rparr>]\<rparr>
         example_gateway
       = (None, emit [TriggerEvent ''d1-01'' ''triple_press'' (Some 3),
                      BusFire ''terncy_pressed'' 7 ''d1-01'' (Some 3)] example_gateway)
   \<and> key_pressed_step example_constants \<lparr>kp_id = ''d1-01'', kp_attributes = Some [\<lparr>times = 3\<rparr>]\<rparr>
         (example_gateway\<lparr>device_registry := []\<rparr>)
       = (None, emit [TriggerEvent ''d1-01'' ''triple_press'' (Some 3)]
                  (example_gateway\<lparr>device_registry := []\<rparr>))"
  using key_pressed_three_times[of "\<lparr>kp_id = ''d1-01'', kp_attributes = Some [\<lparr>times = 3\<rparr>]\<rparr>"
      "\<lparr>times = 3\<rparr>" "[]" example_constants "''triple_press''" example_gateway]
    key_pressed_three_times[of "\<lparr>kp_id = ''d1-01'', kp_attributes = Some [\<lparr>times = 3\<rparr>]\<rparr>"
      "\<lparr>times = 3\<rparr>" "[]" example_constants "''triple_press''" "example_gateway\<lparr>device_registry := []\<rparr>"]
  by (simp add: example_constants_def local_trigger_def host_event_def async_get_device_def
      example_gateway_def example_device_def)

text \<open>
  C8. A keyPressed payload whose \<^verbatim>\<open>times\<close> is below 1 or above 9 raises no exception and is
  handled with the generic single-press label, in both channels as for any press; the table
  of labels is not read: whatever the table is, even an empty one, the result is the same.
\<close>

theorem key_pressed_out_of_range:
  assumes "kp_attributes entity_data = Some (a # others)" and "times a < 1 \<or> 9 < times a"
  shows "key_pressed_step (c\<lparr>EVENT_ENTITY_BUTTON_EVENTS := tbl\<rparr>) entity_data g =
           (None, emit (local_trigger g (kp_id entity_data) (ACTION_SINGLE_PRESS c) (times a)
                        @ host_event c g (kp_id entity_data) (times a)) g)"
  using key_pressed_step_label[of entity_data a others "c\<lparr>EVENT_ENTITY_BUTTON_EVENTS := tbl\<rparr>"
      "ACTION_SINGLE_PRESS c" g] assms
  by (auto simp: host_event_def split: option.splits)

theorem key_pressed_out_of_range_witness:
  "key_pressed_step (example_constants\<lparr>EVENT_ENTITY_BUTTON_EVENTS := Map.empty\<rparr>)
       \<lparr>kp_id = ''d1-01'', kp_attributes = Some [\<lparr>times = 0\<rparr>]\<rparr> example_gateway
     = (None, emit [TriggerEvent ''d1-01'' ''single_press'' (Some 0),
                    BusFire ''terncy_pressed'' 7 ''d1-01'' (Some 0)] example_gateway)
   \<and> key_pressed_step (example_constants\<lparr>EVENT_ENTITY_BUTTON_EVENTS := Map.empty\<rparr>)
       \<lparr>kp_id = ''d1-01'', kp_attributes = Some [\<lparr>times = 15\<rparr>]\<rparr> example_gateway
     = (None, emit [TriggerEvent ''d1-01'' ''single_press'' (Some 15),
                    BusFire ''terncy_pressed'' 7 ''d1-01'' (Some 15)] example_gateway)"
  using key_pressed_out_of_range[of "\<lparr>kp_id = ''d1-01'', kp_attributes = Some [\<lparr>times = 0\<rparr>]\<rparr>"
      "\<lparr>times = 0\<rparr>" "[]" Map.empty example_constants example_gateway]
    key_pressed_out_of_range[of "\<lparr>kp_id = ''d1-01'', kp_attributes = Some [\<lparr>times = 15\<rparr>]\<rparr>"
      "\<lparr>times = 15\<rparr>" "[]" Map.empty example_constants example_gateway]
  by (simp add: example_constants_def local_trigger_def host_event_def async_get_device_def
      example_gateway_def example_device_def)

text \<open>
  C10. A keyPressed payload without the \<^verbatim>\<open>attributes\<close> key is skipped: its step changes
  nothing, emits nothing and raises nothing, and the message is handled exactly as the
  message without that payload, so the payloads after it are processed.
\<close>

theorem key_pressed_without_attributes_skipped:
  assumes "kp_attributes entity_data = None"
  shows "key_pressed_step c entity_data g = (None, g)
         \<and> on_key_pressed c (before @ entity_data # rest) g = on_key_pressed c (before @ rest) g"
proof -
  have s: "key_pressed_step c entity_data g' = (None, g')" for g'
    using assms by (simp add: key_pressed_step_def)
  show ?thesis
    by (simp add: s on_key_pressed_def for_each_append split: prod.splits option.splits)
qed

theorem key_pressed_without_attributes_skipped_witness:
  "kp_attributes \<lparr>kp_id = ''d1-01'', kp_attributes = None\<rparr> = None
   \<and> on_key_pressed example_constants
        [\<lparr>kp_id = ''d1-01'', kp_attributes = None\<rparr>,
         \<lparr>kp_id = ''d1-01'', kp_attributes = Some [\<lparr>times = 2\<rparr>]\<rparr>] example_gateway
     = (None, emit [Log Debug ''EVENT: keyPressed: %s'',
                    TriggerEvent ''d1-01'' ''double_press'' (Some 2),
                    BusFire ''terncy_pressed'' 7 ''d1-01'' (Some 2)] example_gateway)"
proof -
  have "on_key_pressed example_constants
          ([] @ \<lparr>kp_id = ''d1-01'', kp_attributes = None\<rparr>
             # [\<lparr>kp_id = ''d1-01'', kp_attributes = Some [\<lparr>times = 2\<rparr>]\<rparr>]) example_gateway
        = on_key_pressed example_constants
            ([] @ [\<lparr>kp_id = ''d1-01'', kp_attributes = Some [\<lparr>times = 2\<rparr>]\<rparr>]) example_gateway"
    using key_pressed_without_attributes_skipped[of "\<lparr>kp_id = ''d1-01'', kp_attributes = None\<rparr>"
        example_constants example_gateway "[]"
        "[\<lparr>kp_id = ''d1-01'', kp_attributes = Some [\<lparr>times = 2\<rparr>]\<rparr>]"]
    by simp
  then show ?thesis
    by (simp add: on_key_pressed_def key_pressed_step_def example_constants_def Let_def
        trigger_event_def async_get_device_def example_gateway_def example_device_def emit_def)
qed


section \<open>Room names\<close>

lemma resolve_room_name_total:
  "resolve_room_name (Some tbl) r = Inr (resolved_name tbl r)"
  by (simp add: resolve_room_name_def resolved_name_def)

lemma room_dict_total:
  "room_dict (Some tbl) rooms acc
     = Inr (foldl (\<lambda>d r. dict_set (room_id r) (resolved_name tbl r) d) acc rooms)"
  by (induction rooms arbitrary: acc) (simp_all add: resolve_room_name_total)

lemma map_of_fold_dict_set:
  "map_of (foldl (\<lambda>d r. dict_set (kf r) (vf r) d) acc rs) k
     = (case map_of (rev (map (\<lambda>r. (kf r, vf r)) rs)) k of Some v \<Rightarrow> Some v | None \<Rightarrow> map_of acc k)"
  by (induction rs arbitrary: acc) (auto simp: map_of_dict_set split: option.splits)

text \<open>
  C9. With a default table for the language (that of the language, else the English one):
  the name of a fetched room resolves, without an exception, to the hub's name if that is
  not empty, else to the table's entry for the room id, else to the empty string. The
  refresh stores these names in \<^verbatim>\<open>room_data\<close> without entering its exception handler; the
  name stored for a room id is that of the last fetched room with this id.
\<close>

theorem room_name_resolution:
  assumes "locale_table c lang = Some tbl"
  shows "resolve_room_name (locale_table c lang) r
           = Inr (if room_name r \<noteq> [] then room_name r
                  else case tbl (room_id r) of Some n \<Rightarrow> n | None \<Rightarrow> [])
       \<and> refresh_rooms c lang (Inr (Some rooms)) g
           = emit [Log Debug ''Fetching data...'', ApiGetEntities ''room'', Log Debug ''ROOM %s: %s'']
               (g\<lparr>room_data := foldl (\<lambda>d r. dict_set (room_id r) (resolved_name tbl r) d) [] rooms\<rparr>)
       \<and> map_of (room_data (refresh_rooms c lang (Inr (Some rooms)) g))
           = map_of (rev (map (\<lambda>r. (room_id r, resolved_name tbl r)) rooms))
       \<and> (room_id r \<notin> room_id ` set later \<longrightarrow>
            map_of (room_data (refresh_rooms c lang (Inr (Some (earlier @ r # later))) g)) (room_id r)
              = Some (resolved_name tbl r))"
proof -
  have l: "(case DEFAULT_ROOMS c lang of None \<Rightarrow> DEFAULT_ROOMS c ''en'' | Some x \<Rightarrow> Some x) = Some tbl"
    using assms by (simp add: locale_table_def)
  have r: "refresh_rooms c lang (Inr (Some rs)) g
           = emit [Log Debug ''Fetching data...'', ApiGetEntities ''room'', Log Debug ''ROOM %s: %s'']
               (g\<lparr>room_data := foldl (\<lambda>d r. dict_set (room_id r) (resolved_name tbl r) d) [] rs\<rparr>)" for rs
    by (simp add: refresh_rooms_def Let_def l fetch_data_def room_dict_total emit_def)
  have m: "map_of (room_data (refresh_rooms c lang (Inr (Some rs)) g))
           = map_of (rev (map (\<lambda>r. (room_id r, resolved_name tbl r)) rs))" for rs
    by (rule ext) (simp add: r emit_def map_of_fold_dict_set split: option.splits)
  have n: "map_of (room_data (refresh_rooms c lang (Inr (Some (earlier @ r # later))) g)) (room_id r)
              = Some (resolved_name tbl r)" if "room_id r \<notin> room_id ` set later"
  proof -
    from that have "map_of (rev (map (\<lambda>r. (room_id r, resolved_name tbl r)) later)) (room_id r) = None"
      by (simp add: map_of_eq_None_iff image_image)
    then show ?thesis
      by (simp add: m map_add_def)
  qed
  show ?thesis
    using assms r m n by (simp add: resolve_room_name_total resolved_name_def)
qed

theorem room_name_resolution_witness:
  "locale_table example_constants ''zh-Hans'' = Some [''area-0001'' \<mapsto> ''Living Room'']
   \<and> room_data (refresh_rooms example_constants ''zh-Hans''
        (Inr (Some [\<lparr>room_id = ''area-0001'', room_name = ''''\<rparr>,
                    \<lparr>room_id = ''area-0002'', room_name = ''''\<rparr>,
                    \<lparr>room_id = ''area-0003'', room_name = ''Study''\<rparr>])) example_gateway)
     = [(''area-0001'', ''Living Room''), (''area-0002'', ''''), (''area-0003'', ''Study'')]"
proof -
  have t: "locale_table example_constants ''zh-Hans'' = Some [''area-0001'' \<mapsto> ''Living Room'']"
    by (simp add: locale_table_def example_constants_def)
  show ?thesis
    using room_name_resolution[OF t, of _ "[\<lparr>room_id = ''area-0001'', room_name = ''''\<rparr>,
                    \<lparr>room_id = ''area-0002'', room_name = ''''\<rparr>,
                    \<lparr>room_id = ''area-0003'', room_name = ''Study''\<rparr>]" example_gateway] t
    by (simp add: resolved_name_def emit_def)
qed

end
